theory Spec2Isabelle
  imports Complex_Main "HOL-Library.Multiset" "HOL-Library.Log_Nat"
begin

section \<open>BitEye scanner: the computation core of \<open>src/app/page.tsx\<close>\<close>

text \<open>
  The page fetches two pages of ranked market rows, merges them into one snapshot,
  derives a 15 minute and a 4 hour percentage change from the price samples of each row,
  shows the snapshot sorted by a selectable key, classifies each change cell against a
  threshold and plays a sound when some fast change crosses its threshold.

  Numbers. A JavaScript number is an IEEE double. A finite double is a rational, so a
  number is of type \<open>rat\<close>. Comparisons and \<open>Math.abs\<close> are exact on doubles and are the
  same here; the subtraction, division and multiplication of the derived changes round
  their exact result to the nearest double, as the program does. The two zeros of a
  double are one number here; the program only compares them. \<open>null\<close> and
  \<open>undefined\<close> of an optional number are \<open>None\<close>. \<open>-Infinity\<close>, which the sort puts
  in place of a missing value, has a constructor of its own.
\<close>

subsection \<open>Values\<close>

datatype jsnum = NegInfinity | Num rat

text \<open>\<open>a < b\<close> on numbers that may be \<open>-Infinity\<close>.\<close>

fun num_lt :: "jsnum \<Rightarrow> jsnum \<Rightarrow> bool" where
  "num_lt NegInfinity NegInfinity = False"
| "num_lt NegInfinity (Num b) = True"
| "num_lt (Num a) NegInfinity = False"
| "num_lt (Num a) (Num b) = (a < b)"

text \<open>\<open>a > b\<close>.\<close>

definition num_gt :: "jsnum \<Rightarrow> jsnum \<Rightarrow> bool" where
  "num_gt a b = num_lt b a"

text \<open>\<open>x ?? -Infinity\<close>: the right operand replaces \<open>null\<close> and \<open>undefined\<close> only.\<close>

fun or_neg_infinity :: "rat option \<Rightarrow> jsnum" where
  "or_neg_infinity None = NegInfinity"
| "or_neg_infinity (Some v) = Num v"

text \<open>
  \<open>xs[i]\<close> for an integer \<open>i\<close>: an index outside \<open>0 .. length - 1\<close> (a negative one
  included) reads \<open>undefined\<close>.
\<close>

definition js_at :: "'a list \<Rightarrow> int \<Rightarrow> 'a option" where
  "js_at xs i = (if 0 \<le> i \<and> i < int (length xs) then Some (xs ! nat i) else None)"

text \<open>Truthiness of a number that may be \<open>undefined\<close>: \<open>undefined\<close> and \<open>0\<close> are falsy.\<close>

fun truthy :: "rat option \<Rightarrow> bool" where
  "truthy None = False"
| "truthy (Some x) = (x \<noteq> 0)"

text \<open>\<open>a || b\<close>.\<close>

definition js_or :: "rat option \<Rightarrow> rat option \<Rightarrow> rat option" where
  "js_or a b = (if truthy a then a else b)"

text \<open>
  The decimal that \<open>x.toFixed(4)\<close> prints (for a magnitude below \<open>10^21\<close>): \<open>toFixed\<close>
  takes the sign off, picks the integer \<open>n\<close> with \<open>n / 10^4\<close> nearest to the magnitude,
  the larger one of two, and puts the sign back.
\<close>

definition toFixed4 :: "rat \<Rightarrow> rat" where
  "toFixed4 x =
     (if x < 0 then - (of_int \<lfloor>(- x) * 10000 + 1 / 2\<rfloor> / 10000)
      else of_int \<lfloor>x * 10000 + 1 / 2\<rfloor> / 10000)"

subsection \<open>Double arithmetic\<close>

text \<open>
  The result of an arithmetic operation of the program is the exact result rounded to
  the nearest double, ties to the even significand. \<open>exponent x\<close> is the \<open>e\<close> with
  \<open>2^e \<le> \<bar>x\<bar> < 2^(e+1)\<close>; a double has 53 significant bits, so its last place is
  worth \<open>2^(e - 52)\<close>, and not less than \<open>2^(-1074)\<close> (gradual underflow).
\<close>

definition pow2 :: "int \<Rightarrow> rat" where
  "pow2 e = (if 0 \<le> e then 2 ^ nat e else 1 / 2 ^ nat (- e))"

definition exponent :: "rat \<Rightarrow> int" where
  "exponent x =
     (if 1 \<le> \<bar>x\<bar> then bitlen \<lfloor>\<bar>x\<bar>\<rfloor> - 1 else - bitlen (\<lceil>1 / \<bar>x\<bar>\<rceil> - 1))"

definition round_even :: "rat \<Rightarrow> int" where
  "round_even y =
     (let n = \<lfloor>y\<rfloor>; r = y - of_int n
      in if r < 1 / 2 then n else if 1 / 2 < r then n + 1 else if even n then n else n + 1)"

definition to_double :: "rat \<Rightarrow> rat" where
  "to_double x =
     (if x = 0 then 0
      else (let q = pow2 (max (exponent x) (- 1022) - 52)
            in of_int (round_even (x / q)) * q))"

text \<open>\<open>x - y\<close>, \<open>x / y\<close> and \<open>x * y\<close> on numbers (the divisor is not zero where used).\<close>

definition js_sub :: "rat \<Rightarrow> rat \<Rightarrow> rat" where
  "js_sub x y = to_double (x - y)"

definition js_div :: "rat \<Rightarrow> rat \<Rightarrow> rat" where
  "js_div x y = to_double (x / y)"

definition js_mul :: "rat \<Rightarrow> rat \<Rightarrow> rat" where
  "js_mul x y = to_double (x * y)"

text \<open>
  \<open>Number(x.toFixed(4))\<close>: the double nearest to the decimal printed. From \<open>10^21\<close> on
  \<open>toFixed\<close> prints the number itself, which \<open>Number\<close> reads back unchanged.
\<close>

definition number_toFixed4 :: "rat \<Rightarrow> rat" where
  "number_toFixed4 x = (if 10 ^ 21 \<le> \<bar>x\<bar> then x else to_double (toFixed4 x))"

text \<open>
  A result of magnitude \<open>2^1024\<close> or more is \<open>Infinity\<close> or \<open>-Infinity\<close> in the program
  and has no value of type \<open>rat\<close>. \<open>stays_finite nowPrice ago\<close> says that none of the
  three operations of a derived change overflows.
\<close>

definition stays_finite :: "rat \<Rightarrow> rat \<Rightarrow> bool" where
  "stays_finite nowPrice ago =
     (\<bar>js_sub nowPrice ago\<bar> < 2 ^ 1024 \<and>
      \<bar>js_div (js_sub nowPrice ago) ago\<bar> < 2 ^ 1024 \<and>
      \<bar>js_mul (js_div (js_sub nowPrice ago) ago) 100\<bar> < 2 ^ 1024)"

subsection \<open>Coins\<close>

text \<open>
  The interface \<open>Coin\<close>. The rows of the provider are read as \<open>any\<close>; a row is a coin
  whose two derived fields are still absent. \<open>market_cap_rank\<close> is declared a number, but
  the provider sends \<open>null\<close> for an unranked asset, so the field is optional here.
  \<open>sparkline_in_7d\<close> is the optional object with its \<open>price\<close> array.
\<close>

record coin =
  coin_id :: string
  symbol :: string
  name :: string
  current_price :: rat
  market_cap :: rat
  total_volume :: rat
  price_change_percentage_1h_in_currency :: "rat option"
  price_change_percentage_24h_in_currency :: "rat option"
  price_change_percentage_7d_in_currency :: "rat option"
  sparkline_in_7d :: "rat list option"
  price_change_15m :: "rat option"
  price_change_4h :: "rat option"
  market_cap_rank :: "int option"

datatype horizon = H15m | H1h | H4h | H24h | H7d

text \<open>The change a table cell of a coin shows for a horizon.\<close>

fun changePct :: "coin \<Rightarrow> horizon \<Rightarrow> rat option" where
  "changePct c H15m = price_change_15m c"
| "changePct c H1h = price_change_percentage_1h_in_currency c"
| "changePct c H4h = price_change_4h c"
| "changePct c H24h = price_change_percentage_24h_in_currency c"
| "changePct c H7d = price_change_percentage_7d_in_currency c"

subsection \<open>Array.prototype.sort\<close>

text \<open>
  \<open>xs.sort(cmp)\<close> is the library's; the page supplies the comparator only. The model is
  the insertion sort that takes the elements from left to right and places each one
  before the first element of the sorted part that the comparator puts after it
  (\<open>cmp x y < 0\<close>), as the binary insertion of V8 does on a short array. For a consistent
  comparator this is the stable sort that ECMAScript requires. For a comparator that is
  not consistent (one that never answers \<open>0\<close>) ECMAScript leaves the order to the
  implementation, and this is one.
\<close>

fun insert_by :: "('a \<Rightarrow> 'a \<Rightarrow> int) \<Rightarrow> 'a \<Rightarrow> 'a list \<Rightarrow> 'a list" where
  "insert_by cmp x [] = [x]"
| "insert_by cmp x (y # ys) = (if cmp x y < 0 then x # y # ys else y # insert_by cmp x ys)"

definition sort_by :: "('a \<Rightarrow> 'a \<Rightarrow> int) \<Rightarrow> 'a list \<Rightarrow> 'a list" where
  "sort_by cmp xs = foldl (\<lambda>acc x. insert_by cmp x acc) [] xs"

subsection \<open>Deriving the 15 minute and 4 hour changes\<close>

text \<open>
  \<open>ago > 0 ? ((nowPrice - ago) / ago) * 100 : null\<close>, each operation in double
  arithmetic; \<open>undefined > 0\<close> is false.
\<close>

fun pct_change :: "rat \<Rightarrow> rat option \<Rightarrow> rat option" where
  "pct_change nowPrice None = None"
| "pct_change nowPrice (Some ago) =
     (if ago > 0 then Some (js_mul (js_div (js_sub nowPrice ago) ago) 100) else None)"

text \<open>\<open>change !== null ? Number(change.toFixed(4)) : null\<close>.\<close>

fun rounded :: "rat option \<Rightarrow> rat option" where
  "rounded None = None"
| "rounded (Some v) = Some (number_toFixed4 v)"

text \<open>The body of the \<open>map\<close> callback of \<open>fetchData\<close>.\<close>

definition price15mAgo :: "coin \<Rightarrow> rat option" where
  "price15mAgo coin =
     (let prices = (case sparkline_in_7d coin of None \<Rightarrow> [] | Some ps \<Rightarrow> ps);
          nowPrice = current_price coin
      in js_or (js_at prices (int (length prices) - 15)) (Some nowPrice))"

definition price4hAgo :: "coin \<Rightarrow> rat option" where
  "price4hAgo coin =
     (let prices = (case sparkline_in_7d coin of None \<Rightarrow> [] | Some ps \<Rightarrow> ps);
          nowPrice = current_price coin
      in js_or (js_or (js_at prices (int (length prices) - 34))
                      (js_at prices (int (length prices) - 30)))
               (Some nowPrice))"

definition derive :: "coin \<Rightarrow> coin" where
  "derive coin =
     (let nowPrice = current_price coin;
          change15m = pct_change nowPrice (price15mAgo coin);
          change4h = pct_change nowPrice (price4hAgo coin)
      in coin\<lparr>price_change_15m := rounded change15m, price_change_4h := rounded change4h\<rparr>)"

subsection \<open>Merging the two pages\<close>

text \<open>The number the subtraction sees in a rank: \<open>null\<close> converts to \<open>0\<close>.\<close>

definition rank_num :: "coin \<Rightarrow> int" where
  "rank_num c = (case market_cap_rank c of None \<Rightarrow> 0 | Some r \<Rightarrow> r)"

text \<open>\<open>(a, b) => a.market_cap_rank - b.market_cap_rank\<close>.\<close>

definition by_rank :: "coin \<Rightarrow> coin \<Rightarrow> int" where
  "by_rank a b = rank_num a - rank_num b"

text \<open>\<open>[...page1.data, ...page2.data].sort(...).map(...)\<close>.\<close>

definition allCoins :: "coin list \<Rightarrow> coin list \<Rightarrow> coin list" where
  "allCoins page1 page2 = map derive (sort_by by_rank (page1 @ page2))"

subsection \<open>Sorting the view\<close>

datatype SortKey =
  Key_rank | Key_price | Key_15m | Key_1h | Key_4h | Key_24h | Key_7d | Key_market_cap | Key_volume

datatype SortOrder = asc | desc

text \<open>
  The \<open>switch\<close> of the comparator: the value of a coin under a key. A rank is compared
  as a number, so a \<open>null\<close> rank counts as \<open>0\<close>.
\<close>

fun sort_val :: "SortKey \<Rightarrow> coin \<Rightarrow> jsnum" where
  "sort_val Key_rank c = Num (of_int (rank_num c))"
| "sort_val Key_price c = Num (current_price c)"
| "sort_val Key_15m c = or_neg_infinity (price_change_15m c)"
| "sort_val Key_1h c = or_neg_infinity (price_change_percentage_1h_in_currency c)"
| "sort_val Key_4h c = or_neg_infinity (price_change_4h c)"
| "sort_val Key_24h c = or_neg_infinity (price_change_percentage_24h_in_currency c)"
| "sort_val Key_7d c = or_neg_infinity (price_change_percentage_7d_in_currency c)"
| "sort_val Key_market_cap c = Num (market_cap c)"
| "sort_val Key_volume c = Num (total_volume c)"

text \<open>
  \<open>sortOrder === 'asc' ? (aVal > bVal ? 1 : -1) : (aVal < bVal ? 1 : -1)\<close>.
\<close>

definition compare_coins :: "SortKey \<Rightarrow> SortOrder \<Rightarrow> coin \<Rightarrow> coin \<Rightarrow> int" where
  "compare_coins sortKey sortOrder a b =
     (let aVal = sort_val sortKey a; bVal = sort_val sortKey b
      in if sortOrder = asc then (if num_gt aVal bVal then 1 else - 1)
         else (if num_lt aVal bVal then 1 else - 1))"

text \<open>\<open>[...coins].sort(...)\<close>: the snapshot itself is not touched.\<close>

definition sortedCoins :: "SortKey \<Rightarrow> SortOrder \<Rightarrow> coin list \<Rightarrow> coin list" where
  "sortedCoins sortKey sortOrder coins = sort_by (compare_coins sortKey sortOrder) coins"

text \<open>The sort key of a horizon column.\<close>

fun horizon_key :: "horizon \<Rightarrow> SortKey" where
  "horizon_key H15m = Key_15m"
| "horizon_key H1h = Key_1h"
| "horizon_key H4h = Key_4h"
| "horizon_key H24h = Key_24h"
| "horizon_key H7d = Key_7d"

subsection \<open>Thresholds, cell classes and the alert\<close>

text \<open>\<open>userThresholds\<close>: an object with one number for each of the five horizons.\<close>

type_synonym thresholds = "horizon \<Rightarrow> rat"

fun defaultThresholds :: thresholds where
  "defaultThresholds H15m = 3"
| "defaultThresholds H1h = 5"
| "defaultThresholds H4h = 10"
| "defaultThresholds H24h = 15"
| "defaultThresholds H7d = 40"

text \<open>The five class strings of \<open>getChangeClass\<close>.\<close>

definition neutral :: string where
  "neutral = ''text-gray-400''"

definition positive_flagged :: string where
  "positive_flagged = ''bg-green-100 text-green-800 font-bold animate-pulse''"

definition negative_flagged :: string where
  "negative_flagged = ''bg-red-100 text-red-800 font-bold animate-pulse''"

definition positive_normal :: string where
  "positive_normal = ''text-green-600''"

definition negative_normal :: string where
  "negative_normal = ''text-red-600''"

fun getChangeClass :: "thresholds \<Rightarrow> rat option \<Rightarrow> horizon \<Rightarrow> string" where
  "getChangeClass userThresholds None tf = neutral"
| "getChangeClass userThresholds (Some val) tf =
     (let abs = \<bar>val\<bar>; thresh = userThresholds tf
      in if abs \<ge> thresh then (if val > 0 then positive_flagged else negative_flagged)
         else (if val > 0 then positive_normal else negative_normal))"

text \<open>
  The classifier of the earlier revision of the page (the first \<open>getChangeClass\<close> of
  the file): three timeframes with fixed thresholds, and \<open>!change\<close> as its first test,
  which holds for \<open>null\<close> and for \<open>0\<close>.
\<close>

datatype timeframe_v1 = T1h | T24h | T7d

fun thresholds_v1 :: "timeframe_v1 \<Rightarrow> rat" where
  "thresholds_v1 T1h = 5"
| "thresholds_v1 T24h = 15"
| "thresholds_v1 T7d = 40"

fun getChangeClass_v1 :: "rat option \<Rightarrow> timeframe_v1 \<Rightarrow> string" where
  "getChangeClass_v1 None timeframe = ''text-gray-400''"
| "getChangeClass_v1 (Some change) timeframe =
     (if change = 0 then ''text-gray-400''
      else (let threshold = thresholds_v1 timeframe; abs = \<bar>change\<bar>
            in if abs \<ge> threshold
               then (if change > 0 then ''bg-green-100 text-green-800 font-bold''
                     else ''bg-red-100 text-red-800 font-bold'')
               else (if change > 0 then ''text-green-600'' else ''text-red-600'')))"

text \<open>A cell is flagged when its class is one of the two highlighted ones.\<close>

definition flagged :: "string \<Rightarrow> bool" where
  "flagged cls = (cls = positive_flagged \<or> cls = negative_flagged)"

text \<open>
  The effect hook: \<open>coins.some(c => ...)\<close> over the three fast horizons, then
  \<open>playAlert\<close>, which plays the sound only when \<open>soundEnabled\<close> is set.
\<close>

datatype effect = PlayAudio

definition playAlert :: "bool \<Rightarrow> effect list" where
  "playAlert soundEnabled = (if soundEnabled then [PlayAudio] else [])"

fun crosses :: "rat option \<Rightarrow> rat \<Rightarrow> bool" where
  "crosses None t = False"
| "crosses (Some v) t = (\<bar>v\<bar> \<ge> t)"

definition bigMove :: "thresholds \<Rightarrow> coin list \<Rightarrow> bool" where
  "bigMove userThresholds coins =
     list_ex (\<lambda>c. crosses (price_change_15m c) (userThresholds H15m) \<or>
                  crosses (price_change_percentage_1h_in_currency c) (userThresholds H1h) \<or>
                  crosses (price_change_4h c) (userThresholds H4h)) coins"

definition alert_effect :: "thresholds \<Rightarrow> bool \<Rightarrow> coin list \<Rightarrow> effect list" where
  "alert_effect userThresholds soundEnabled coins =
     (if bigMove userThresholds coins then playAlert soundEnabled else [])"

subsection \<open>The fetch cycle\<close>

text \<open>
  The state of the component that the fetch cycle and the view read and write. \<open>now\<close> is
  the clock read by \<open>new Date()\<close>. \<open>darkMode\<close>, which only the markup reads, is left out.
\<close>

record state =
  coins :: "coin list"
  loading :: bool
  error :: string
  lastUpdate :: "nat option"
  soundEnabled :: bool
  sortKey :: SortKey
  sortOrder :: SortOrder
  userThresholds :: thresholds

text \<open>The message of the \<open>catch\<close> block; its dash is U+2014, three bytes in UTF-8.\<close>

definition failed_message :: string where
  "failed_message = ''Failed to load data '' @ [CHR 0xE2, CHR 0x80, CHR 0x94] @ '' retrying...''"

text \<open>
  What a page request of a cycle comes to. \<open>Rejected\<close>: the promise rejects (network
  error, timeout, error status). \<open>Throwing\<close>: the request resolves with a payload on which
  the \<open>try\<close> block throws before \<open>setCoins\<close> (data that cannot be spread: \<open>null\<close>, a
  number, a plain object; or an array with a \<open>null\<close> row). \<open>EmptyText\<close>: the payload is
  the empty string instead of an array; a string is spread into its characters, so this
  one contributes no row and nothing throws. \<open>Rows\<close>: the payload is an array of rows.
  \<open>rows_of\<close> is what the spread \<open>...page.data\<close> puts into the array, \<open>None\<close> when the
  cycle ends in the \<open>catch\<close> block; \<open>Promise.all\<close> rejects as soon as one request does.
\<close>

datatype response = Rejected | Throwing | EmptyText | Rows "coin list"

fun rows_of :: "response \<Rightarrow> coin list option" where
  "rows_of Rejected = None"
| "rows_of Throwing = None"
| "rows_of EmptyText = Some []"
| "rows_of (Rows page) = Some page"

definition fetchData :: "nat \<Rightarrow> response \<Rightarrow> response \<Rightarrow> state \<Rightarrow> state" where
  "fetchData now response1 response2 s =
     (let s1 = s\<lparr>loading := True, error := ''''\<rparr>
      in case (rows_of response1, rows_of response2) of
           (Some page1, Some page2) \<Rightarrow>
             s1\<lparr>coins := allCoins page1 page2, lastUpdate := Some now, loading := False\<rparr>
         | _ \<Rightarrow> s1\<lparr>error := failed_message, loading := False\<rparr>)"

text \<open>The view: \<open>sortedCoins\<close> is recomputed from \<open>coins\<close>, \<open>sortKey\<close> and \<open>sortOrder\<close>.\<close>

definition view :: "state \<Rightarrow> coin list" where
  "view s = sortedCoins (sortKey s) (sortOrder s) (coins s)"

subsection \<open>Sample data\<close>

text \<open>
  The state of the component when it is mounted, and a row with the fields the properties
  below look at: id, rank, current price and price samples.
\<close>

definition initial_state :: state where
  "initial_state =
     \<lparr>coins = [], loading = True, error = '''', lastUpdate = None, soundEnabled = True,
      sortKey = Key_rank, sortOrder = desc, userThresholds = defaultThresholds\<rparr>"

definition sample :: "string \<Rightarrow> int option \<Rightarrow> rat \<Rightarrow> rat list option \<Rightarrow> coin" where
  "sample i r p ps =
     \<lparr>coin_id = i, symbol = i, name = i, current_price = p, market_cap = 0, total_volume = 0,
      price_change_percentage_1h_in_currency = None,
      price_change_percentage_24h_in_currency = None,
      price_change_percentage_7d_in_currency = None,
      sparkline_in_7d = ps, price_change_15m = None, price_change_4h = None,
      market_cap_rank = r\<rparr>"

section \<open>Properties\<close>

subsection \<open>Cell classification\<close>

lemmas class_defs =
  neutral_def positive_flagged_def negative_flagged_def positive_normal_def negative_normal_def

lemma flagged_iff: "flagged (getChangeClass th (Some v) tf) \<longleftrightarrow> th tf \<le> \<bar>v\<bar>"
  by (simp add: flagged_def Let_def class_defs)

text \<open>
  C6. For a present change \<open>v\<close> and the threshold \<open>th tf\<close> of its horizon, the cell is
  flagged exactly when \<open>\<bar>v\<bar> \<ge> th tf\<close>. A value equal to the threshold is flagged, and
  the value one unit below the threshold is not flagged; the latter for every threshold above
  one half, which covers every value the threshold sliders can take (1 to 50).
\<close>

theorem threshold_boundary:
  "(flagged (getChangeClass th (Some v) tf) \<longleftrightarrow> \<bar>v\<bar> \<ge> th tf) \<and>
   flagged (getChangeClass th (Some (th tf)) tf) \<and>
   (1 / 2 < th tf \<longrightarrow> \<not> flagged (getChangeClass th (Some (th tf - 1)) tf))"
  unfolding flagged_iff by (auto simp add: abs_if)

theorem threshold_boundary_witness:
  "flagged (getChangeClass defaultThresholds (Some 5) H1h) \<and>
   \<not> flagged (getChangeClass defaultThresholds (Some 4) H1h) \<and>
   flagged (getChangeClass defaultThresholds (Some (- 7)) H1h)"
  using threshold_boundary [of defaultThresholds 5 H1h]
    threshold_boundary [of defaultThresholds "- 7" H1h]
  by simp

text \<open>
  C10. For a threshold of at least 1 the classifier gives a present change of exactly 0
  the class of a small negative change, not the neutral class; the neutral class is given
  to an unavailable value and to nothing else.
\<close>

theorem zero_is_negative_normal:
  "1 \<le> th tf \<Longrightarrow>
     getChangeClass th (Some 0) tf = negative_normal \<and>
     getChangeClass th (Some 0) tf \<noteq> neutral \<and>
     (w < 0 \<and> - w < th tf \<longrightarrow> getChangeClass th (Some w) tf = getChangeClass th (Some 0) tf) \<and>
     (getChangeClass th v tf = neutral \<longleftrightarrow> v = None)"
  by (cases v) (auto simp add: Let_def class_defs)

theorem zero_is_negative_normal_witness:
  "getChangeClass defaultThresholds (Some 0) H15m = negative_normal \<and>
   getChangeClass defaultThresholds (Some 0) H15m \<noteq> neutral \<and>
   getChangeClass defaultThresholds (Some (- 1)) H15m = negative_normal"
  using zero_is_negative_normal [of defaultThresholds H15m "- 1" "Some (- 1)"]
  by (simp add: Let_def class_defs)

text \<open>
  The earlier revision of the classifier tested \<open>!change\<close> and so showed a change of 0
  like a missing value; the present one tests \<open>val === null\<close>.
\<close>

lemma getChangeClass_v1_zero: "getChangeClass_v1 (Some 0) timeframe = ''text-gray-400''"
  by simp

subsection \<open>The sort\<close>

text \<open>
  The sort keeps every element, and its result is ordered by any transitive relation that
  the comparator decides. For a comparator that is the sign of a difference of keys it is
  the stable sort by that key.
\<close>

lemma mset_insert_by: "mset (insert_by cmp x ys) = add_mset x (mset ys)"
  by (induction ys) simp_all

lemma set_insert_by: "set (insert_by cmp x ys) = insert x (set ys)"
  by (induction ys) auto

lemma mset_foldl_insert_by:
  "mset (foldl (\<lambda>acc x. insert_by cmp x acc) acc xs) = mset acc + mset xs"
  by (induction xs arbitrary: acc) (simp_all add: mset_insert_by)

lemma mset_sort_by: "mset (sort_by cmp xs) = mset xs"
  by (simp add: sort_by_def mset_foldl_insert_by)

lemma sorted_insert_by:
  assumes tr: "\<And>x y z. R x y \<Longrightarrow> R y z \<Longrightarrow> R x z"
    and lt: "\<And>x y. cmp x y < 0 \<Longrightarrow> R x y"
    and ge: "\<And>x y. \<not> cmp x y < 0 \<Longrightarrow> R y x"
  shows "sorted_wrt R ys \<Longrightarrow> sorted_wrt R (insert_by cmp x ys)"
proof (induction ys)
  case Nil
  then show ?case by simp
next
  case (Cons y ys)
  show ?case
  proof (cases "cmp x y < 0")
    case True
    then have "R x y" by (rule lt)
    with Cons.prems tr have "\<forall>z\<in>set (y # ys). R x z" by auto
    with True Cons.prems show ?thesis by simp
  next
    case False
    then have "R y x" by (rule ge)
    with False Cons show ?thesis by (auto simp add: set_insert_by)
  qed
qed

lemma sorted_foldl_insert_by:
  assumes tr: "\<And>x y z. R x y \<Longrightarrow> R y z \<Longrightarrow> R x z"
    and lt: "\<And>x y. cmp x y < 0 \<Longrightarrow> R x y"
    and ge: "\<And>x y. \<not> cmp x y < 0 \<Longrightarrow> R y x"
  shows "sorted_wrt R acc \<Longrightarrow> sorted_wrt R (foldl (\<lambda>acc x. insert_by cmp x acc) acc xs)"
proof (induction xs arbitrary: acc)
  case Nil
  then show ?case by simp
next
  case (Cons x xs)
  have "sorted_wrt R (insert_by cmp x acc)"
    using tr lt ge Cons.prems by (rule sorted_insert_by)
  then show ?case using Cons.IH by simp
qed

lemma sorted_sort_by:
  assumes tr: "\<And>x y z. R x y \<Longrightarrow> R y z \<Longrightarrow> R x z"
    and lt: "\<And>x y. cmp x y < 0 \<Longrightarrow> R x y"
    and ge: "\<And>x y. \<not> cmp x y < 0 \<Longrightarrow> R y x"
  shows "sorted_wrt R (sort_by cmp xs)"
proof -
  have "sorted_wrt R []" by simp
  with tr lt ge show ?thesis unfolding sort_by_def by (rule sorted_foldl_insert_by)
qed

lemma filter_insert_by:
  assumes cmp: "\<And>x y. cmp x y < 0 \<longleftrightarrow> f x < f y"
  shows "sorted (map f ys) \<Longrightarrow>
    filter (\<lambda>z. f k = f z) (insert_by cmp x ys) =
      (if f k = f x then filter (\<lambda>z. f k = f z) ys @ [x] else filter (\<lambda>z. f k = f z) ys)"
proof (induction ys)
  case Nil
  then show ?case by simp
next
  case (Cons y ys)
  show ?case
  proof (cases "cmp x y < 0")
    case True
    then have xy: "f x < f y" by (simp add: cmp)
    have "filter (\<lambda>z. f k = f z) (y # ys) = []" if "f k = f x"
      using that xy Cons.prems by (auto simp add: filter_empty_conv)
    with True show ?thesis by auto
  next
    case False
    with Cons show ?thesis by auto
  qed
qed

lemma filter_foldl_insert_by:
  fixes f :: "'a \<Rightarrow> 'b::linorder"
  assumes cmp: "\<And>x y. cmp x y < 0 \<longleftrightarrow> f x < f y"
  shows "sorted (map f acc) \<Longrightarrow>
    filter (\<lambda>z. f k = f z) (foldl (\<lambda>acc x. insert_by cmp x acc) acc xs) =
      filter (\<lambda>z. f k = f z) acc @ filter (\<lambda>z. f k = f z) xs"
proof (induction xs arbitrary: acc)
  case Nil
  then show ?case by simp
next
  case (Cons x xs)
  have s: "sorted_wrt (\<lambda>a b. f a \<le> f b) (insert_by cmp x acc)"
    using Cons.prems by (intro sorted_insert_by) (auto simp add: cmp sorted_map)
  then have "sorted (map f (insert_by cmp x acc))" by (simp add: sorted_map)
  from Cons.IH [OF this] show ?case
    using filter_insert_by [of cmp f acc k x, OF cmp Cons.prems] by simp
qed

lemma sort_by_sort_key:
  fixes f :: "'a \<Rightarrow> 'b::linorder"
  assumes cmp: "\<And>x y. cmp x y < 0 \<longleftrightarrow> f x < f y"
  shows "sort_by cmp xs = sort_key f xs"
proof (rule properties_for_sort_key [symmetric])
  show "mset (sort_by cmp xs) = mset xs" by (rule mset_sort_by)
  show "sorted (map f (sort_by cmp xs))"
    unfolding sorted_map by (rule sorted_sort_by) (auto simp add: cmp)
  show "filter (\<lambda>x. f k = f x) (sort_by cmp xs) = filter (\<lambda>x. f k = f x) xs" for k
    unfolding sort_by_def using filter_foldl_insert_by [of cmp f "[]" k xs, OF cmp] by simp
qed

lemma sort_by_rank: "sort_by by_rank xs = sort_key rank_num xs"
  by (rule sort_by_sort_key) (simp add: by_rank_def)

subsection \<open>The merge\<close>

lemma rank_num_derive: "rank_num (derive c) = rank_num c"
  by (simp add: rank_num_def derive_def Let_def)

lemma derive_keeps: "coin_id (derive c) = coin_id c \<and> market_cap_rank (derive c) = market_cap_rank c"
  by (simp add: derive_def Let_def)

lemma allCoins_sort_key: "allCoins page1 page2 = map derive (sort_key rank_num (page1 @ page2))"
  by (simp add: allCoins_def sort_by_rank)

lemma map_rank_num_allCoins:
  "map rank_num (allCoins page1 page2) = sort (map rank_num (page1 @ page2))"
proof -
  have "map rank_num (allCoins page1 page2) = map rank_num (sort_key rank_num (page1 @ page2))"
    by (simp add: allCoins_sort_key rank_num_derive comp_def)
  also have "\<dots> = sort (map rank_num (page1 @ page2))"
    by (rule properties_for_sort [symmetric]) simp_all
  finally show ?thesis .
qed

text \<open>
  C3, as the code has it. The merge step concatenates the two pages and orders the rows by
  ascending rank with a stable sort, a \<open>null\<close> rank counting as 0, then derives the two
  changes of each row. It removes nothing: every row of either page is in the result, rows
  that share an id and rows without a rank included.
\<close>

theorem merge_keeps_every_row:
  "allCoins page1 page2 = map derive (sort_key rank_num (page1 @ page2)) \<and>
   mset (allCoins page1 page2) = image_mset derive (mset page1 + mset page2) \<and>
   mset (map coin_id (allCoins page1 page2)) = mset (map coin_id (page1 @ page2)) \<and>
   mset (map market_cap_rank (allCoins page1 page2)) = mset (map market_cap_rank (page1 @ page2)) \<and>
   length (allCoins page1 page2) = length page1 + length page2 \<and>
   sorted (map rank_num (allCoins page1 page2))"
proof (intro conjI)
  show eq: "allCoins page1 page2 = map derive (sort_key rank_num (page1 @ page2))"
    by (rule allCoins_sort_key)
  show "mset (allCoins page1 page2) = image_mset derive (mset page1 + mset page2)"
    by (simp add: eq)
  have "map coin_id (allCoins page1 page2) = map coin_id (sort_key rank_num (page1 @ page2))"
    by (simp add: eq derive_keeps)
  then show "mset (map coin_id (allCoins page1 page2)) = mset (map coin_id (page1 @ page2))"
    by simp
  have "map market_cap_rank (allCoins page1 page2) =
      map market_cap_rank (sort_key rank_num (page1 @ page2))"
    by (simp add: eq derive_keeps)
  then show "mset (map market_cap_rank (allCoins page1 page2)) =
      mset (map market_cap_rank (page1 @ page2))"
    by simp
  show "length (allCoins page1 page2) = length page1 + length page2"
    by (simp add: eq)
  show "sorted (map rank_num (allCoins page1 page2))"
    by (simp add: map_rank_num_allCoins)
qed

theorem merge_keeps_every_row_witness:
  "length (allCoins [sample ''btc'' (Some 1) 10 None]
      [sample ''btc'' (Some 2) 20 None, sample ''zzz'' None 30 None]) = 3"
  using merge_keeps_every_row [of "[sample ''btc'' (Some 1) 10 None]"
      "[sample ''btc'' (Some 2) 20 None, sample ''zzz'' None 30 None]"]
  by simp

text \<open>
  C3 as stated fails: of two rows with the id \<open>btc\<close> both are kept, and the row without
  a rank is kept and comes first.
\<close>

theorem merge_dedup_counterexample:
  "map coin_id (allCoins [sample ''btc'' (Some 1) 10 None]
      [sample ''btc'' (Some 2) 20 None, sample ''zzz'' None 30 None]) = [''zzz'', ''btc'', ''btc''] \<and>
   map market_cap_rank (allCoins [sample ''btc'' (Some 1) 10 None]
      [sample ''btc'' (Some 2) 20 None, sample ''zzz'' None 30 None]) = [None, Some 1, Some 2]"
  by (simp add: allCoins_def sort_by_def by_rank_def rank_num_def derive_keeps comp_def)
     (simp add: sample_def)

text \<open>
  C8. Merging the pages in either order gives the same snapshot when the ranks across the
  two pages are unique. Uniqueness is that of the numbers the comparator sees
  (\<open>rank_num\<close>); for pages whose ranks are positive integers, as the data model has it,
  this is uniqueness of the ranks.
\<close>

theorem merge_commutes:
  assumes "distinct (map rank_num (A @ B))"
  shows "allCoins A B = allCoins B A"
proof -
  from assms have inj: "inj_on rank_num (set (A @ B))"
    by (simp only: distinct_map)
  have "sort_key rank_num (A @ B) = sort_key rank_num (B @ A)"
    using inj by (intro sort_key_inj_key_eq) (simp_all add: union_commute)
  then show ?thesis by (simp add: allCoins_sort_key)
qed

theorem merge_commutes_witness:
  "allCoins [sample ''a'' (Some 2) 10 None] [sample ''b'' (Some 1) 20 None] =
   allCoins [sample ''b'' (Some 1) 20 None] [sample ''a'' (Some 2) 10 None]"
  using merge_commutes [of "[sample ''a'' (Some 2) 10 None]" "[sample ''b'' (Some 1) 20 None]"]
  by (simp add: rank_num_def sample_def)

text \<open>
  C9, as the code has it. The fetch cycle does not establish the rank invariant; it
  passes on the ranks the provider sent. When the rows of the two pages carry each of the
  ranks 1 to N exactly once, the snapshot of a successful cycle lists the ranks 1 to N in
  this order.
\<close>

theorem ranks_contiguous_when_provided:
  assumes "mset (map market_cap_rank (page1 @ page2)) = mset (map Some [1 .. N])"
  shows "map market_cap_rank (coins (fetchData now (Rows page1) (Rows page2) s)) = map Some [1 .. N]"
proof -
  let ?xs = "page1 @ page2"
  have some: "market_cap_rank c = Some (rank_num c)" if "c \<in> set ?xs" for c
  proof -
    from that have "market_cap_rank c \<in># mset (map market_cap_rank ?xs)" by auto
    then have "market_cap_rank c \<in> set (map Some [1 .. N])" unfolding assms by simp
    then show ?thesis by (auto simp add: rank_num_def)
  qed
  then have eq: "map market_cap_rank ?xs = map Some (map rank_num ?xs)" by simp
  have "mset (map Some (map rank_num ?xs)) = mset (map Some [1 .. N])"
    using assms unfolding eq .
  then have "image_mset Some (mset (map rank_num ?xs)) = image_mset Some (mset [1 .. N])"
    by (simp only: mset_map)
  moreover have "inj (image_mset (Some :: int \<Rightarrow> int option))"
    by (rule multiset.inj_map) simp
  ultimately have m: "mset (map rank_num ?xs) = mset [1 .. N]"
    by (rule injD [rotated])
  have "sort (map rank_num ?xs) = [1 .. N]"
  proof (rule properties_for_sort)
    show "mset [1 .. N] = mset (map rank_num ?xs)" using m by (rule sym)
    show "sorted [1 .. N]" by simp
  qed
  then have r: "map rank_num (allCoins page1 page2) = [1 .. N]"
    by (simp add: map_rank_num_allCoins)
  have "set (allCoins page1 page2) = derive ` set ?xs"
    by (simp add: allCoins_sort_key)
  then have "market_cap_rank c = Some (rank_num c)" if "c \<in> set (allCoins page1 page2)" for c
    using that some by (auto simp add: derive_keeps rank_num_derive)
  then have "map market_cap_rank (allCoins page1 page2) = map Some (map rank_num (allCoins page1 page2))"
    by simp
  with r show ?thesis by (simp add: fetchData_def)
qed

theorem ranks_contiguous_when_provided_witness:
  "map market_cap_rank (coins (fetchData 7 (Rows [sample ''b'' (Some 2) 20 None])
      (Rows [sample ''a'' (Some 1) 10 None]) initial_state)) = [Some 1, Some 2]"
  using ranks_contiguous_when_provided [of "[sample ''b'' (Some 2) 20 None]"
      "[sample ''a'' (Some 1) 10 None]" 2 7 initial_state]
  by (simp add: sample_def upto.simps)

text \<open>
  C9 as stated fails: a successful cycle whose pages carry the ranks 1 and 3 yields a
  snapshot of two assets with the ranks 1 and 3.
\<close>

theorem ranks_contiguous_counterexample:
  "map market_cap_rank (coins (fetchData 7 (Rows [sample ''a'' (Some 1) 10 None])
      (Rows [sample ''c'' (Some 3) 30 None]) initial_state)) = [Some 1, Some 3] \<and>
   [Some 1, Some 3] \<noteq> map Some [1 .. 2]"
  by (simp add: fetchData_def allCoins_def sort_by_def by_rank_def rank_num_def derive_keeps)
     (simp add: sample_def upto.simps)

subsection \<open>The derived changes\<close>

text \<open>
  The decimal of \<open>toFixed(4)\<close> is a multiple of \<open>1/10000\<close> at most half a step away; the
  reference price of a horizon is the sample counted from the end of the series, or else
  the current price.
\<close>

lemma toFixed4_grid: "\<exists>k::int. toFixed4 x = of_int k / 10000"
proof (cases "x < 0")
  case True
  then have "toFixed4 x = of_int (- \<lfloor>(- x) * 10000 + 1 / 2\<rfloor>) / 10000"
    by (simp add: toFixed4_def)
  then show ?thesis ..
next
  case False
  then have "toFixed4 x = of_int \<lfloor>x * 10000 + 1 / 2\<rfloor> / 10000"
    by (simp add: toFixed4_def)
  then show ?thesis ..
qed

lemma round_half_near:
  fixes y :: rat
  shows "\<bar>of_int \<lfloor>y + 1 / 2\<rfloor> - y\<bar> \<le> 1 / 2"
  by linarith

lemma toFixed4_near: "\<bar>toFixed4 x - x\<bar> \<le> 1 / 20000"
proof -
  define y where "y = \<bar>x\<bar> * 10000"
  define z :: rat where "z = of_int \<lfloor>y + 1 / 2\<rfloor>"
  have near: "\<bar>z - y\<bar> \<le> 1 / 2" unfolding z_def by (rule round_half_near)
  have "toFixed4 x - x = (if x < 0 then - (z - y) / 10000 else (z - y) / 10000)"
    by (simp add: toFixed4_def z_def y_def)
  then have "\<bar>toFixed4 x - x\<bar> = \<bar>z - y\<bar> / 10000" by (simp add: abs_minus_commute)
  with near show ?thesis by simp
qed

lemma toFixed4_of_int: "toFixed4 (of_int k) = of_int k"
proof -
  have "\<lfloor>(of_int n :: rat) + 1 / 2\<rfloor> = n" for n by linarith
  from this [of "k * 10000"] this [of "- k * 10000"] show ?thesis
    by (simp add: toFixed4_def)
qed

lemma toFixed4_zero: "toFixed4 0 = 0"
  using toFixed4_of_int [of 0] by simp

lemma js_or_Some: "js_or (Some v) b = (if v \<noteq> 0 then Some v else b)"
  by (simp add: js_or_def)

lemma js_or_at:
  "js_or (js_at ps (int (length ps) - int k)) b =
     (if 0 < k \<and> k \<le> length ps \<and> ps ! (length ps - k) \<noteq> 0 then Some (ps ! (length ps - k)) else b)"
proof (cases "0 < k \<and> k \<le> length ps")
  case True
  then have "nat (int (length ps) - int k) = length ps - k" by simp
  with True show ?thesis by (simp add: js_or_def js_at_def)
next
  case False
  then show ?thesis by (auto simp add: js_or_def js_at_def)
qed

lemma js_or_at_numeral:
  "js_or (js_at ps (int (length ps) - numeral k)) b =
     (if numeral k \<le> length ps \<and> ps ! (length ps - numeral k) \<noteq> 0
      then Some (ps ! (length ps - numeral k)) else b)"
  using js_or_at [of ps "numeral k" b] by simp

lemma reference_15m:
  "js_or (js_at ps (int (length ps) - 15)) (Some now) =
     Some (if 15 \<le> length ps \<and> ps ! (length ps - 15) \<noteq> 0 then ps ! (length ps - 15) else now)"
  by (simp add: js_or_at_numeral)

lemma reference_4h:
  "js_or (js_or (js_at ps (int (length ps) - 34)) (js_at ps (int (length ps) - 30))) (Some now) =
     Some (if 34 \<le> length ps \<and> ps ! (length ps - 34) \<noteq> 0 then ps ! (length ps - 34)
           else if 30 \<le> length ps \<and> ps ! (length ps - 30) \<noteq> 0 then ps ! (length ps - 30)
           else now)"
  by (simp add: js_or_at_numeral js_or_Some)

text \<open>
  The rounding to a double: \<open>exponent\<close> finds the binade, and the double is at most half
  a unit in the last place away from the exact value.
\<close>

lemma pow2_pos: "0 < pow2 e"
  by (simp add: pow2_def)

lemma pow2_nat: "0 \<le> e \<Longrightarrow> pow2 e = 2 ^ nat e"
  by (simp add: pow2_def)

lemma pow2_neg: "0 < k \<Longrightarrow> pow2 (- k) = 1 / 2 ^ nat k"
  by (simp add: pow2_def)

lemma exponent_large:
  assumes "1 \<le> \<bar>x\<bar>"
  shows "pow2 (exponent x) \<le> \<bar>x\<bar> \<and> \<bar>x\<bar> < pow2 (exponent x + 1)"
proof -
  define m where "m = \<lfloor>\<bar>x\<bar>\<rfloor>"
  from assms have m: "0 < m" unfolding m_def by linarith
  from bitlen_bounds [OF m] have lo: "2 ^ nat (bitlen m - 1) \<le> m" and hi: "m < 2 ^ nat (bitlen m)"
    by simp_all
  from m have b: "0 < bitlen m"
    using bitlen_eq_zero_iff [of m] bitlen_nonneg [of m] by linarith
  have e: "exponent x = bitlen m - 1" using assms by (simp add: exponent_def m_def)
  have "(2::rat) ^ nat (bitlen m - 1) = of_int (2 ^ nat (bitlen m - 1))" by simp
  also have "\<dots> \<le> of_int m" using lo by (simp only: of_int_le_iff)
  also have "\<dots> \<le> \<bar>x\<bar>" unfolding m_def by (rule of_int_floor_le)
  finally have 1: "pow2 (exponent x) \<le> \<bar>x\<bar>" using b by (simp add: e pow2_nat)
  from hi have "m + 1 \<le> 2 ^ nat (bitlen m)" by simp
  then have "(of_int (m + 1) :: rat) \<le> of_int (2 ^ nat (bitlen m))" by (simp only: of_int_le_iff)
  moreover have "\<bar>x\<bar> < of_int (m + 1)" unfolding m_def by linarith
  ultimately have "\<bar>x\<bar> < 2 ^ nat (bitlen m)" by simp
  then have 2: "\<bar>x\<bar> < pow2 (exponent x + 1)" using b by (simp add: e pow2_nat)
  from 1 2 show ?thesis ..
qed

lemma exponent_small:
  assumes "x \<noteq> 0" "\<bar>x\<bar> < 1"
  shows "pow2 (exponent x) \<le> \<bar>x\<bar> \<and> \<bar>x\<bar> < pow2 (exponent x + 1)"
proof -
  define y where "y = 1 / \<bar>x\<bar>"
  define m where "m = \<lceil>y\<rceil>"
  define k where "k = bitlen (m - 1)"
  from assms have x: "0 < \<bar>x\<bar>" by simp
  with assms have y: "1 < y" unfolding y_def by simp
  then have m: "0 < m - 1" unfolding m_def by linarith
  from bitlen_bounds [OF m] have lo: "2 ^ nat (k - 1) \<le> m - 1" and hi: "m - 1 < 2 ^ nat k"
    unfolding k_def by simp_all
  from m have k: "0 < k"
    unfolding k_def using bitlen_eq_zero_iff [of "m - 1"] bitlen_nonneg [of "m - 1"] by linarith
  have e: "exponent x = - k" using assms by (simp add: exponent_def k_def m_def y_def)
  have xy: "\<bar>x\<bar> = 1 / y" unfolding y_def by simp
  from hi have "m \<le> 2 ^ nat k" by simp
  then have mk: "(of_int m :: rat) \<le> of_int (2 ^ nat k)" by (simp only: of_int_le_iff)
  have "y \<le> of_int m" unfolding m_def by (rule le_of_int_ceiling)
  also note mk
  also have "(of_int (2 ^ nat k) :: rat) = 2 ^ nat k" by simp
  finally have "y \<le> 2 ^ nat k" .
  with y have "1 / 2 ^ nat k \<le> 1 / y" by (intro divide_left_mono) simp_all
  then have 1: "pow2 (exponent x) \<le> \<bar>x\<bar>" using k by (simp add: e pow2_neg xy)
  have 2: "\<bar>x\<bar> < pow2 (exponent x + 1)"
  proof (cases "k = 1")
    case True
    with assms show ?thesis by (simp add: e pow2_def)
  next
    case False
    with k have k2: "0 < k - 1" by simp
    have "(2::rat) ^ nat (k - 1) = of_int (2 ^ nat (k - 1))" by simp
    also have "\<dots> \<le> of_int (m - 1)" using lo by (simp only: of_int_le_iff)
    also have "\<dots> < y" unfolding m_def by linarith
    finally have "2 ^ nat (k - 1) < y" .
    with y have "1 / y < 1 / 2 ^ nat (k - 1)" by (intro divide_strict_left_mono) simp_all
    moreover have "exponent x + 1 = - (k - 1)" by (simp add: e)
    ultimately show ?thesis using k2 by (simp only: pow2_neg xy)
  qed
  from 1 2 show ?thesis ..
qed

lemma exponent_bounds:
  "x \<noteq> 0 \<Longrightarrow> pow2 (exponent x) \<le> \<bar>x\<bar> \<and> \<bar>x\<bar> < pow2 (exponent x + 1)"
  using exponent_large [of x] exponent_small [of x] by (cases "1 \<le> \<bar>x\<bar>") simp_all

lemma round_even_near: "\<bar>of_int (round_even y) - y\<bar> \<le> 1 / 2"
proof -
  have "of_int \<lfloor>y\<rfloor> \<le> y" "y < of_int \<lfloor>y\<rfloor> + 1" by linarith+
  then show ?thesis by (auto simp add: round_even_def Let_def abs_le_iff)
qed

lemma to_double_near: "\<bar>to_double x - x\<bar> \<le> pow2 (max (exponent x) (- 1022) - 52) / 2"
proof (cases "x = 0")
  case True
  then show ?thesis using pow2_pos [of "max (exponent x) (- 1022) - 52"] by (simp add: to_double_def)
next
  case False
  define q where "q = pow2 (max (exponent x) (- 1022) - 52)"
  have q: "0 < q" unfolding q_def by (rule pow2_pos)
  have "to_double x - x = (of_int (round_even (x / q)) - x / q) * q"
    using False q by (simp add: to_double_def q_def [symmetric] Let_def algebra_simps)
  then have "\<bar>to_double x - x\<bar> = \<bar>of_int (round_even (x / q)) - x / q\<bar> * q"
    using q by (simp add: abs_mult)
  also have "\<dots> \<le> (1 / 2) * q"
    using q by (intro mult_right_mono round_even_near) simp
  finally show ?thesis by (simp add: q_def)
qed

lemma to_double_zero: "to_double 0 = 0"
  by (simp add: to_double_def)

lemma number_toFixed4_zero: "number_toFixed4 0 = 0"
  by (simp add: number_toFixed4_def toFixed4_zero to_double_zero)

lemma js_sub_self: "js_sub x x = 0"
  by (simp add: js_sub_def to_double_zero)

lemma js_div_zero: "js_div 0 y = 0"
  by (simp add: js_div_def to_double_zero)

lemma js_mul_zero: "js_mul 0 y = 0"
  by (simp add: js_mul_def to_double_zero)

lemma rounded_pct_change:
  "rounded (pct_change now (Some r)) =
     (if r > 0 then Some (number_toFixed4 (js_mul (js_div (js_sub now r) r) 100)) else None)"
  by simp

lemma derive_15m: "price_change_15m (derive c) = rounded (pct_change (current_price c) (price15mAgo c))"
  by (simp add: derive_def Let_def)

lemma derive_4h: "price_change_4h (derive c) = rounded (pct_change (current_price c) (price4hAgo c))"
  by (simp add: derive_def Let_def)

lemma no_move: "0 < now \<Longrightarrow> rounded (pct_change now (Some now)) = Some 0"
  by (simp add: js_sub_self js_div_zero js_mul_zero number_toFixed4_zero)

lemma double_steps_663_640:
  "js_sub 663 640 = 23"
  "js_div 23 640 = 2589569785738035 / 72057594037927936"
  "js_mul (2589569785738035 / 72057594037927936) 100 = 8092405580431359 / 2251799813685248"
  by code_simp+

lemma double_663_640:
  "number_toFixed4 (js_mul (js_div (js_sub 663 640) 640) 100) = to_double (35937 / 10000)"
  unfolding double_steps_663_640 by code_simp

lemma stays_finite_663_640: "stays_finite 663 640"
  unfolding stays_finite_def double_steps_663_640 by simp

lemma double_100_50: "number_toFixed4 (js_mul (js_div (js_sub 100 50) 50) 100) = 100"
  by code_simp

text \<open>
  C1, as the code has it. The 15 minute change is measured against the sample at index
  \<open>length - 15\<close> of the series (the 15th from the end), the 4 hour change against the
  sample at index \<open>length - 34\<close> or, failing that, \<open>length - 30\<close>. A sample that is
  absent (the series is shorter, or empty) or zero is replaced by the current price, not by
  the oldest sample. When the reference is positive the change is
  \<open>((current - reference) / reference) * 100\<close> in double arithmetic (each of the three
  operations rounds to the nearest double; stated for computations that do not overflow),
  rounded to four decimals and read back as a double; when the reference is not positive
  the change is unavailable. So a series that is too short or empty gives a change of 0
  for a positive current price. The last four conjuncts say what the two roundings are:
  the decimal is a multiple of \<open>1/10000\<close> at most half a step away, and the double is at
  most half a unit in the last place away, the last place being that of the binade of the
  exact result.
\<close>

theorem derive_change:
  "(let prices = (case sparkline_in_7d c of None \<Rightarrow> [] | Some ps \<Rightarrow> ps);
        n = length prices;
        now = current_price c;
        ref15 = (if 15 \<le> n \<and> prices ! (n - 15) \<noteq> 0 then prices ! (n - 15) else now);
        ref4h = (if 34 \<le> n \<and> prices ! (n - 34) \<noteq> 0 then prices ! (n - 34)
                 else if 30 \<le> n \<and> prices ! (n - 30) \<noteq> 0 then prices ! (n - 30)
                 else now)
    in (0 < ref15 \<and> stays_finite now ref15 \<longrightarrow>
          price_change_15m (derive c) =
            Some (number_toFixed4 (js_mul (js_div (js_sub now ref15) ref15) 100))) \<and>
       (\<not> 0 < ref15 \<longrightarrow> price_change_15m (derive c) = None) \<and>
       (0 < ref4h \<and> stays_finite now ref4h \<longrightarrow>
          price_change_4h (derive c) =
            Some (number_toFixed4 (js_mul (js_div (js_sub now ref4h) ref4h) 100))) \<and>
       (\<not> 0 < ref4h \<longrightarrow> price_change_4h (derive c) = None) \<and>
       (n < 15 \<and> 0 < now \<longrightarrow> price_change_15m (derive c) = Some 0) \<and>
       (n < 30 \<and> 0 < now \<longrightarrow> price_change_4h (derive c) = Some 0)) \<and>
   (\<exists>k::int. toFixed4 x = of_int k / 10000) \<and> \<bar>toFixed4 x - x\<bar> \<le> 1 / 20000 \<and>
   \<bar>to_double x - x\<bar> \<le> pow2 (max (exponent x) (- 1022) - 52) / 2 \<and>
   (x \<noteq> 0 \<longrightarrow> pow2 (exponent x) \<le> \<bar>x\<bar> \<and> \<bar>x\<bar> < pow2 (exponent x + 1))"
proof -
  let ?ps = "case sparkline_in_7d c of None \<Rightarrow> [] | Some ps \<Rightarrow> ps"
  let ?n = "length ?ps"
  let ?now = "current_price c"
  let ?ref15 = "if 15 \<le> ?n \<and> ?ps ! (?n - 15) \<noteq> 0 then ?ps ! (?n - 15) else ?now"
  let ?ref4h = "if 34 \<le> ?n \<and> ?ps ! (?n - 34) \<noteq> 0 then ?ps ! (?n - 34)
                else if 30 \<le> ?n \<and> ?ps ! (?n - 30) \<noteq> 0 then ?ps ! (?n - 30)
                else ?now"
  have p15: "price15mAgo c = Some ?ref15"
    unfolding price15mAgo_def Let_def by (rule reference_15m)
  have p4h: "price4hAgo c = Some ?ref4h"
    unfolding price4hAgo_def Let_def by (rule reference_4h)
  have a: "price_change_15m (derive c) =
      (if ?ref15 > 0 then Some (number_toFixed4 (js_mul (js_div (js_sub ?now ?ref15) ?ref15) 100))
       else None)"
    unfolding derive_15m p15 by (rule rounded_pct_change)
  have b: "price_change_4h (derive c) =
      (if ?ref4h > 0 then Some (number_toFixed4 (js_mul (js_div (js_sub ?now ?ref4h) ?ref4h) 100))
       else None)"
    unfolding derive_4h p4h by (rule rounded_pct_change)
  have a1: "0 < ?ref15 \<and> stays_finite ?now ?ref15 \<longrightarrow>
      price_change_15m (derive c) =
        Some (number_toFixed4 (js_mul (js_div (js_sub ?now ?ref15) ?ref15) 100))"
    unfolding a by (rule impI) (simp only: if_True)
  have a2: "\<not> 0 < ?ref15 \<longrightarrow> price_change_15m (derive c) = None"
    unfolding a by (rule impI) (simp only: if_False)
  have b1: "0 < ?ref4h \<and> stays_finite ?now ?ref4h \<longrightarrow>
      price_change_4h (derive c) =
        Some (number_toFixed4 (js_mul (js_div (js_sub ?now ?ref4h) ?ref4h) 100))"
    unfolding b by (rule impI) (simp only: if_True)
  have b2: "\<not> 0 < ?ref4h \<longrightarrow> price_change_4h (derive c) = None"
    unfolding b by (rule impI) (simp only: if_False)
  have c: "?n < 15 \<and> 0 < ?now \<longrightarrow> price_change_15m (derive c) = Some 0"
  proof
    assume h: "?n < 15 \<and> 0 < ?now"
    then have "?ref15 = ?now" by simp
    with p15 have "price15mAgo c = Some ?now" by simp
    with h show "price_change_15m (derive c) = Some 0"
      unfolding derive_15m by (simp only: no_move)
  qed
  have d: "?n < 30 \<and> 0 < ?now \<longrightarrow> price_change_4h (derive c) = Some 0"
  proof
    assume h: "?n < 30 \<and> 0 < ?now"
    then have "?ref4h = ?now" by simp
    with p4h have "price4hAgo c = Some ?now" by simp
    with h show "price_change_4h (derive c) = Some 0"
      unfolding derive_4h by (simp only: no_move)
  qed
  have e: "x \<noteq> 0 \<longrightarrow> pow2 (exponent x) \<le> \<bar>x\<bar> \<and> \<bar>x\<bar> < pow2 (exponent x + 1)"
    by (rule impI) (rule exponent_bounds)
  show ?thesis
    unfolding Let_def
    by (intro conjI, rule a1, rule a2, rule b1, rule b2, rule c, rule d, rule toFixed4_grid,
        rule toFixed4_near, rule to_double_near, rule e)
qed

theorem derive_change_witness:
  "price_change_15m (derive (sample ''a'' (Some 1) 663 (Some (640 # replicate 14 650)))) =
     Some (to_double (35937 / 10000)) \<and>
   price_change_4h (derive (sample ''a'' (Some 1) 663 (Some (640 # replicate 14 650)))) = Some 0 \<and>
   price_change_15m (derive (sample ''b'' (Some 2) 100 (Some [40, 60]))) = Some 0"
  using derive_change [of "sample ''a'' (Some 1) 663 (Some (640 # replicate 14 650))" 0]
    derive_change [of "sample ''b'' (Some 2) 100 (Some [40, 60])" 0]
    stays_finite_663_640
  by (simp add: sample_def Let_def double_663_640)

text \<open>
  C1 as stated fails. With the single sample 50 and the current price 100 the changes are
  0, where the oldest sample would give 100; with an empty series the changes are 0, not
  unavailable.
\<close>

theorem derive_fallback_counterexample:
  "price_change_15m (derive (sample ''a'' (Some 1) 100 (Some [50]))) = Some 0 \<and>
   price_change_4h (derive (sample ''a'' (Some 1) 100 (Some [50]))) = Some 0 \<and>
   toFixed4 (((100 - 50) / 50) * 100) = 100 \<and>
   number_toFixed4 (js_mul (js_div (js_sub 100 50) 50) 100) = 100 \<and>
   price_change_15m (derive (sample ''b'' (Some 2) 100 (Some []))) = Some 0 \<and>
   price_change_4h (derive (sample ''b'' (Some 2) 100 (Some []))) = Some 0 \<and>
   price_change_15m (derive (sample ''b'' (Some 2) 100 (Some []))) \<noteq> None"
  using toFixed4_of_int [of 100]
  by (simp add: derive_15m derive_4h price15mAgo_def price4hAgo_def js_or_def js_at_def sample_def
      js_sub_self js_div_zero js_mul_zero number_toFixed4_zero double_100_50)

subsection \<open>The fetch cycle\<close>

lemma failed_message_nonempty: "failed_message \<noteq> ''''"
  by (simp add: failed_message_def)

lemma rows_of_None: "rows_of r = None \<longleftrightarrow> r \<in> {Rejected, Throwing}"
  by (cases r) simp_all

lemma fetchData_failure:
  "rows_of response1 = None \<or> rows_of response2 = None \<Longrightarrow>
     fetchData now response1 response2 s = s\<lparr>loading := False, error := failed_message\<rparr>"
  by (auto simp add: fetchData_def Let_def split: option.splits)

lemma fetchData_success:
  "rows_of response1 = Some page1 \<Longrightarrow> rows_of response2 = Some page2 \<Longrightarrow>
   fetchData now response1 response2 s =
     s\<lparr>coins := allCoins page1 page2, loading := False, error := '''', lastUpdate := Some now\<rparr>"
  by (simp add: fetchData_def)

text \<open>
  C4, as the code has it. When either page request of a cycle is rejected, or comes with
  a payload on which the cycle throws, the snapshot held before is kept as it is (and so
  is the time of the last update) and the error message is set, to a text that is not
  empty. A later cycle in which both requests bring an array of rows leaves the error
  message empty and puts the merge of its two pages in place of the snapshot, whatever the
  snapshot was. A malformed payload on which nothing throws is not a failure: the empty
  text in place of an array is merged as a page without rows, the snapshot is replaced and
  the error message stays empty.
\<close>

theorem fetch_failure_retains_snapshot:
  "(response1 \<in> {Rejected, Throwing} \<or> response2 \<in> {Rejected, Throwing} \<longrightarrow>
      coins (fetchData now response1 response2 s) = coins s \<and>
      lastUpdate (fetchData now response1 response2 s) = lastUpdate s \<and>
      error (fetchData now response1 response2 s) = failed_message \<and>
      error (fetchData now response1 response2 s) \<noteq> '''') \<and>
   error (fetchData later (Rows page1) (Rows page2) (fetchData now response1 response2 s)) = '''' \<and>
   coins (fetchData later (Rows page1) (Rows page2) (fetchData now response1 response2 s)) =
     allCoins page1 page2 \<and>
   coins (fetchData now (Rows page1) EmptyText s) = allCoins page1 [] \<and>
   error (fetchData now (Rows page1) EmptyText s) = '''' \<and>
   coins (fetchData now EmptyText (Rows page2) s) = allCoins [] page2 \<and>
   error (fetchData now EmptyText (Rows page2) s) = ''''"
proof (intro conjI impI)
  assume "response1 \<in> {Rejected, Throwing} \<or> response2 \<in> {Rejected, Throwing}"
  then have f: "rows_of response1 = None \<or> rows_of response2 = None"
    by (simp only: rows_of_None)
  show "coins (fetchData now response1 response2 s) = coins s"
    by (simp add: fetchData_failure [OF f])
  show "lastUpdate (fetchData now response1 response2 s) = lastUpdate s"
    by (simp add: fetchData_failure [OF f])
  show "error (fetchData now response1 response2 s) = failed_message"
    by (simp add: fetchData_failure [OF f])
  then show "error (fetchData now response1 response2 s) \<noteq> ''''"
    by (simp add: failed_message_nonempty)
next
  show "error (fetchData later (Rows page1) (Rows page2) (fetchData now response1 response2 s)) = ''''"
    by (simp add: fetchData_success)
  show "coins (fetchData later (Rows page1) (Rows page2) (fetchData now response1 response2 s)) =
     allCoins page1 page2"
    by (simp add: fetchData_success)
  show "coins (fetchData now (Rows page1) EmptyText s) = allCoins page1 []"
    by (simp add: fetchData_success)
  show "error (fetchData now (Rows page1) EmptyText s) = ''''"
    by (simp add: fetchData_success)
  show "coins (fetchData now EmptyText (Rows page2) s) = allCoins [] page2"
    by (simp add: fetchData_success)
  show "error (fetchData now EmptyText (Rows page2) s) = ''''"
    by (simp add: fetchData_success)
qed

theorem fetch_failure_retains_snapshot_witness:
  "coins (fetchData 2 (Rows [sample ''c'' (Some 3) 30 None]) Rejected
      (fetchData 1 (Rows [sample ''a'' (Some 1) 10 None]) (Rows [sample ''b'' (Some 2) 20 None])
        initial_state)) =
     allCoins [sample ''a'' (Some 1) 10 None] [sample ''b'' (Some 2) 20 None] \<and>
   error (fetchData 2 (Rows [sample ''c'' (Some 3) 30 None]) Rejected
      (fetchData 1 (Rows [sample ''a'' (Some 1) 10 None]) (Rows [sample ''b'' (Some 2) 20 None])
        initial_state)) \<noteq> '''' \<and>
   error (fetchData 3 (Rows [sample ''c'' (Some 3) 30 None]) (Rows [])
     (fetchData 2 (Rows [sample ''c'' (Some 3) 30 None]) Rejected
      (fetchData 1 (Rows [sample ''a'' (Some 1) 10 None]) (Rows [sample ''b'' (Some 2) 20 None])
        initial_state))) = ''''"
  using fetch_failure_retains_snapshot [of "Rows [sample ''c'' (Some 3) 30 None]" Rejected 2
      "fetchData 1 (Rows [sample ''a'' (Some 1) 10 None]) (Rows [sample ''b'' (Some 2) 20 None])
        initial_state" 3 "[sample ''c'' (Some 3) 30 None]" "[]"]
    failed_message_nonempty
  by (simp add: fetchData_success)

text \<open>
  C4 as stated fails. After a cycle that left the assets \<open>a\<close> and \<open>b\<close>, a cycle whose
  second request brings the empty text instead of an array does not keep them: the
  snapshot becomes the one asset of the first page, and the error message is empty.
\<close>

theorem malformed_payload_counterexample:
  "map coin_id (coins
     (fetchData 1 (Rows [sample ''a'' (Some 1) 10 None]) (Rows [sample ''b'' (Some 2) 20 None])
        initial_state)) = [''a'', ''b''] \<and>
   map coin_id (coins (fetchData 2 (Rows [sample ''c'' (Some 3) 30 None]) EmptyText
     (fetchData 1 (Rows [sample ''a'' (Some 1) 10 None]) (Rows [sample ''b'' (Some 2) 20 None])
        initial_state))) = [''c''] \<and>
   error (fetchData 2 (Rows [sample ''c'' (Some 3) 30 None]) EmptyText
     (fetchData 1 (Rows [sample ''a'' (Some 1) 10 None]) (Rows [sample ''b'' (Some 2) 20 None])
        initial_state)) = ''''"
  by (simp add: fetchData_success allCoins_def sort_by_def by_rank_def rank_num_def derive_keeps)
     (simp add: sample_def)

subsection \<open>The alert\<close>

lemma bigMove_iff:
  "bigMove th cs \<longleftrightarrow>
     (\<exists>c\<in>set cs. \<exists>h\<in>{H15m, H1h, H4h}. \<exists>v. changePct c h = Some v \<and> th h \<le> \<bar>v\<bar>)"
proof -
  have "crosses x t \<longleftrightarrow> (\<exists>v. x = Some v \<and> t \<le> \<bar>v\<bar>)" for x t
    by (cases x) simp_all
  then show ?thesis by (simp add: bigMove_def list_ex_iff)
qed

text \<open>
  C5. The aggregate signal \<open>bigMove\<close> is true exactly when some asset has a present
  value on one of the horizons 15m, 1h, 4h whose absolute value reaches the threshold of
  that horizon. With the sound enabled the effect plays the alert exactly when the signal
  is true; with the sound disabled the effect does nothing, while the signal is computed
  all the same and the cell of a crossing asset is classified as flagged (the
  classification does not look at the sound setting).
\<close>

theorem alert_aggregation:
  "(bigMove th cs \<longleftrightarrow>
      (\<exists>c\<in>set cs. \<exists>h\<in>{H15m, H1h, H4h}. \<exists>v. changePct c h = Some v \<and> th h \<le> \<bar>v\<bar>)) \<and>
   (alert_effect th True cs = [PlayAudio] \<longleftrightarrow> bigMove th cs) \<and>
   alert_effect th False cs = [] \<and>
   (\<forall>c\<in>set cs. \<forall>h\<in>{H15m, H1h, H4h}. \<forall>v. changePct c h = Some v \<and> th h \<le> \<bar>v\<bar> \<longrightarrow>
      bigMove th cs \<and> flagged (getChangeClass th (changePct c h) h))"
proof (intro conjI)
  show "bigMove th cs \<longleftrightarrow>
      (\<exists>c\<in>set cs. \<exists>h\<in>{H15m, H1h, H4h}. \<exists>v. changePct c h = Some v \<and> th h \<le> \<bar>v\<bar>)"
    by (rule bigMove_iff)
  show "alert_effect th True cs = [PlayAudio] \<longleftrightarrow> bigMove th cs"
    by (simp add: alert_effect_def playAlert_def)
  show "alert_effect th False cs = []"
    by (simp add: alert_effect_def playAlert_def)
  show "\<forall>c\<in>set cs. \<forall>h\<in>{H15m, H1h, H4h}. \<forall>v. changePct c h = Some v \<and> th h \<le> \<bar>v\<bar> \<longrightarrow>
      bigMove th cs \<and> flagged (getChangeClass th (changePct c h) h)"
    unfolding bigMove_iff by (auto simp only: flagged_iff)
qed

theorem alert_aggregation_witness:
  "bigMove defaultThresholds
     [sample ''a'' (Some 1) 10 None,
      (sample ''b'' (Some 2) 20 None)\<lparr>price_change_percentage_1h_in_currency := Some (- 5)\<rparr>] \<and>
   \<not> bigMove defaultThresholds
     [sample ''a'' (Some 1) 10 None,
      (sample ''b'' (Some 2) 20 None)\<lparr>price_change_percentage_1h_in_currency := Some 4\<rparr>] \<and>
   alert_effect defaultThresholds False
     [sample ''a'' (Some 1) 10 None,
      (sample ''b'' (Some 2) 20 None)\<lparr>price_change_percentage_1h_in_currency := Some (- 5)\<rparr>] = [] \<and>
   flagged (getChangeClass defaultThresholds (Some (- 5)) H1h)"
  using alert_aggregation [of defaultThresholds
     "[sample ''a'' (Some 1) 10 None,
      (sample ''b'' (Some 2) 20 None)\<lparr>price_change_percentage_1h_in_currency := Some (- 5)\<rparr>]"]
    alert_aggregation [of defaultThresholds
     "[sample ''a'' (Some 1) 10 None,
      (sample ''b'' (Some 2) 20 None)\<lparr>price_change_percentage_1h_in_currency := Some 4\<rparr>]"]
  by (simp add: sample_def)

subsection \<open>The sorted view\<close>

lemma num_lt_asym: "num_lt a b \<Longrightarrow> \<not> num_lt b a"
  by (cases a; cases b) simp_all

lemma num_lt_irrefl: "\<not> num_lt a a"
  by (cases a) simp_all

lemma not_num_lt_trans: "\<not> num_lt a b \<Longrightarrow> \<not> num_lt b c \<Longrightarrow> \<not> num_lt a c"
  by (cases a; cases b; cases c) simp_all

lemma not_num_lt_NegInfinity: "\<not> num_lt NegInfinity x \<longleftrightarrow> x = NegInfinity"
  by (cases x) simp_all

lemma or_neg_infinity_eq: "or_neg_infinity x = NegInfinity \<longleftrightarrow> x = None"
  by (cases x) simp_all

lemma sort_val_horizon: "sort_val (horizon_key h) c = or_neg_infinity (changePct c h)"
  by (cases h) simp_all

lemma compare_coins_asc: "compare_coins k asc a b < 0 \<longleftrightarrow> \<not> num_lt (sort_val k b) (sort_val k a)"
  by (simp add: compare_coins_def num_gt_def Let_def)

lemma compare_coins_desc: "compare_coins k desc a b < 0 \<longleftrightarrow> \<not> num_lt (sort_val k a) (sort_val k b)"
  by (simp add: compare_coins_def Let_def)

lemma compare_coins_tie:
  "sort_val k a = sort_val k b \<Longrightarrow> compare_coins k ord a b = - 1"
  by (simp add: compare_coins_def num_gt_def num_lt_irrefl Let_def)

lemma sorted_asc:
  "sorted_wrt (\<lambda>a b. \<not> num_lt (sort_val k b) (sort_val k a)) (sortedCoins k asc cs)"
  unfolding sortedCoins_def
proof (rule sorted_sort_by)
  fix x y z
  assume "\<not> num_lt (sort_val k y) (sort_val k x)" "\<not> num_lt (sort_val k z) (sort_val k y)"
  then show "\<not> num_lt (sort_val k z) (sort_val k x)" by (rule not_num_lt_trans [rotated])
next
  fix x y
  assume "compare_coins k asc x y < 0"
  then show "\<not> num_lt (sort_val k y) (sort_val k x)" by (simp add: compare_coins_asc)
next
  fix x y
  assume "\<not> compare_coins k asc x y < 0"
  then have "num_lt (sort_val k y) (sort_val k x)" by (simp add: compare_coins_asc)
  then show "\<not> num_lt (sort_val k x) (sort_val k y)" by (rule num_lt_asym)
qed

lemma sorted_desc:
  "sorted_wrt (\<lambda>a b. \<not> num_lt (sort_val k a) (sort_val k b)) (sortedCoins k desc cs)"
  unfolding sortedCoins_def
proof (rule sorted_sort_by)
  fix x y z
  assume "\<not> num_lt (sort_val k x) (sort_val k y)" "\<not> num_lt (sort_val k y) (sort_val k z)"
  then show "\<not> num_lt (sort_val k x) (sort_val k z)" by (rule not_num_lt_trans)
next
  fix x y
  assume "compare_coins k desc x y < 0"
  then show "\<not> num_lt (sort_val k x) (sort_val k y)" by (simp add: compare_coins_desc)
next
  fix x y
  assume "\<not> compare_coins k desc x y < 0"
  then have "num_lt (sort_val k x) (sort_val k y)" by (simp add: compare_coins_desc)
  then show "\<not> num_lt (sort_val k y) (sort_val k x)" by (rule num_lt_asym)
qed

lemma sorted_by_key:
  "sorted_wrt (\<lambda>a b. if ord = asc then \<not> num_lt (sort_val k b) (sort_val k a)
                      else \<not> num_lt (sort_val k a) (sort_val k b)) (sortedCoins k ord cs)"
  by (cases ord) (simp_all add: sorted_asc sorted_desc)

lemma mset_sortedCoins: "mset (sortedCoins k ord cs) = mset cs"
  by (simp add: sortedCoins_def mset_sort_by)

lemma sortedCoins_four:
  "sortedCoins k ord [a, b, c, d] =
     insert_by (compare_coins k ord) d
       (insert_by (compare_coins k ord) c (insert_by (compare_coins k ord) b [a]))"
  by (simp add: sortedCoins_def sort_by_def)

lemma sortedCoins_two:
  "sortedCoins k ord [a, b] = insert_by (compare_coins k ord) b [a]"
  by (simp add: sortedCoins_def sort_by_def)

text \<open>
  C7. Under a horizon key an unavailable value is compared as \<open>-Infinity\<close> in both
  directions, and the sorted view keeps every asset. Sorted descending, an asset without a
  value is never above one with a value: below an asset without a value there are only
  assets without a value. Sorted ascending, it is never below one with a value: above an
  asset without a value there are only assets without a value.
\<close>

theorem unavailable_sorts_as_neg_infinity:
  "sort_val (horizon_key h) c = or_neg_infinity (changePct c h) \<and>
   mset (sortedCoins (horizon_key h) ord cs) = mset cs \<and>
   (\<forall>i j. i < j \<and> j < length (sortedCoins (horizon_key h) ord cs) \<longrightarrow>
      (ord = desc \<and> changePct (sortedCoins (horizon_key h) ord cs ! i) h = None \<longrightarrow>
         changePct (sortedCoins (horizon_key h) ord cs ! j) h = None) \<and>
      (ord = asc \<and> changePct (sortedCoins (horizon_key h) ord cs ! j) h = None \<longrightarrow>
         changePct (sortedCoins (horizon_key h) ord cs ! i) h = None))"
proof (intro conjI allI impI)
  show "sort_val (horizon_key h) c = or_neg_infinity (changePct c h)"
    by (rule sort_val_horizon)
  show "mset (sortedCoins (horizon_key h) ord cs) = mset cs"
    by (rule mset_sortedCoins)
next
  fix i j
  let ?out = "sortedCoins (horizon_key h) ord cs"
  assume ij: "i < j \<and> j < length ?out"
  assume a: "ord = desc \<and> changePct (?out ! i) h = None"
  then have d: "ord = desc" by (rule conjunct1)
  from a have "changePct (?out ! i) h = None" by (rule conjunct2)
  then have n: "sort_val (horizon_key h) (?out ! i) = NegInfinity"
    by (simp only: sort_val_horizon or_neg_infinity.simps)
  from sorted_desc [of "horizon_key h" cs] ij d
  have "\<not> num_lt (sort_val (horizon_key h) (?out ! i)) (sort_val (horizon_key h) (?out ! j))"
    by (simp add: sorted_wrt_iff_nth_less)
  with n have "sort_val (horizon_key h) (?out ! j) = NegInfinity"
    by (simp add: not_num_lt_NegInfinity)
  then show "changePct (?out ! j) h = None"
    by (simp add: sort_val_horizon or_neg_infinity_eq)
next
  fix i j
  let ?out = "sortedCoins (horizon_key h) ord cs"
  assume ij: "i < j \<and> j < length ?out"
  assume a: "ord = asc \<and> changePct (?out ! j) h = None"
  then have d: "ord = asc" by (rule conjunct1)
  from a have "changePct (?out ! j) h = None" by (rule conjunct2)
  then have n: "sort_val (horizon_key h) (?out ! j) = NegInfinity"
    by (simp only: sort_val_horizon or_neg_infinity.simps)
  from sorted_asc [of "horizon_key h" cs] ij d
  have "\<not> num_lt (sort_val (horizon_key h) (?out ! j)) (sort_val (horizon_key h) (?out ! i))"
    by (simp add: sorted_wrt_iff_nth_less)
  with n have "sort_val (horizon_key h) (?out ! i) = NegInfinity"
    by (simp add: not_num_lt_NegInfinity)
  then show "changePct (?out ! i) h = None"
    by (simp add: sort_val_horizon or_neg_infinity_eq)
qed

theorem unavailable_sorts_as_neg_infinity_witness:
  "map coin_id (sortedCoins (horizon_key H15m) desc
     [(sample ''a'' (Some 1) 10 None)\<lparr>price_change_15m := Some 1\<rparr>,
      sample ''b'' (Some 2) 20 None,
      (sample ''c'' (Some 3) 30 None)\<lparr>price_change_15m := Some (- 2)\<rparr>,
      sample ''d'' (Some 4) 40 None]) = [''a'', ''c'', ''d'', ''b''] \<and>
   changePct (sortedCoins (horizon_key H15m) desc
     [(sample ''a'' (Some 1) 10 None)\<lparr>price_change_15m := Some 1\<rparr>,
      sample ''b'' (Some 2) 20 None,
      (sample ''c'' (Some 3) 30 None)\<lparr>price_change_15m := Some (- 2)\<rparr>,
      sample ''d'' (Some 4) 40 None] ! 2) H15m = None \<and>
   changePct (sortedCoins (horizon_key H15m) desc
     [(sample ''a'' (Some 1) 10 None)\<lparr>price_change_15m := Some 1\<rparr>,
      sample ''b'' (Some 2) 20 None,
      (sample ''c'' (Some 3) 30 None)\<lparr>price_change_15m := Some (- 2)\<rparr>,
      sample ''d'' (Some 4) 40 None] ! 3) H15m = None \<and>
   map coin_id (sortedCoins (horizon_key H15m) asc
     [(sample ''a'' (Some 1) 10 None)\<lparr>price_change_15m := Some 1\<rparr>,
      sample ''b'' (Some 2) 20 None,
      (sample ''c'' (Some 3) 30 None)\<lparr>price_change_15m := Some (- 2)\<rparr>,
      sample ''d'' (Some 4) 40 None]) = [''d'', ''b'', ''c'', ''a'']"
  using unavailable_sorts_as_neg_infinity [of H15m "sample ''b'' (Some 2) 20 None" desc
     "[(sample ''a'' (Some 1) 10 None)\<lparr>price_change_15m := Some 1\<rparr>,
      sample ''b'' (Some 2) 20 None,
      (sample ''c'' (Some 3) 30 None)\<lparr>price_change_15m := Some (- 2)\<rparr>,
      sample ''d'' (Some 4) 40 None]", THEN conjunct2, THEN conjunct2, THEN spec, THEN spec, of 2 3]
  by (simp add: sortedCoins_four compare_coins_def num_gt_def sample_def)

text \<open>
  C2, as the code has it. The view is a function of the snapshot, the key and the order
  alone, so sorting the same snapshot again with the same selection gives the same
  sequence; the sequence holds the same assets, ordered by the value under the key in
  the chosen direction. Ties are not broken by rank: for two assets with equal values the
  comparator answers \<open>-1\<close> in either argument order, whatever their ranks, so their
  relative order is the one the sort routine makes of that answer.
\<close>

theorem sort_is_deterministic_without_rank_tie_break:
  "(coins s = coins s' \<and> sortKey s = sortKey s' \<and> sortOrder s = sortOrder s' \<longrightarrow> view s = view s') \<and>
   mset (sortedCoins k ord cs) = mset cs \<and>
   sorted_wrt (\<lambda>a b. if ord = asc then \<not> num_lt (sort_val k b) (sort_val k a)
                      else \<not> num_lt (sort_val k a) (sort_val k b)) (sortedCoins k ord cs) \<and>
   (sort_val k a = sort_val k b \<longrightarrow>
      compare_coins k ord a b = - 1 \<and> compare_coins k ord b a = - 1)"
proof (intro conjI impI)
  assume "coins s = coins s' \<and> sortKey s = sortKey s' \<and> sortOrder s = sortOrder s'"
  then show "view s = view s'" by (simp add: view_def)
next
  show "mset (sortedCoins k ord cs) = mset cs" by (rule mset_sortedCoins)
  show "sorted_wrt (\<lambda>a b. if ord = asc then \<not> num_lt (sort_val k b) (sort_val k a)
                      else \<not> num_lt (sort_val k a) (sort_val k b)) (sortedCoins k ord cs)"
    by (rule sorted_by_key)
next
  assume t: "sort_val k a = sort_val k b"
  then show "compare_coins k ord a b = - 1" by (rule compare_coins_tie)
  from t [symmetric] show "compare_coins k ord b a = - 1" by (rule compare_coins_tie)
qed

theorem sort_is_deterministic_without_rank_tie_break_witness:
  "view (initial_state\<lparr>coins := [sample ''a'' (Some 1) 5 None, sample ''b'' (Some 2) 7 None],
      sortKey := Key_price\<rparr>) =
   view (initial_state\<lparr>coins := [sample ''a'' (Some 1) 5 None, sample ''b'' (Some 2) 7 None],
      sortKey := Key_price, loading := False\<rparr>) \<and>
   compare_coins Key_price desc (sample ''a'' (Some 1) 5 None) (sample ''b'' (Some 2) 5 None) = - 1"
  using sort_is_deterministic_without_rank_tie_break [of
      "initial_state\<lparr>coins := [sample ''a'' (Some 1) 5 None, sample ''b'' (Some 2) 7 None],
        sortKey := Key_price\<rparr>"
      "initial_state\<lparr>coins := [sample ''a'' (Some 1) 5 None, sample ''b'' (Some 2) 7 None],
        sortKey := Key_price, loading := False\<rparr>"
      Key_price desc "[]" "sample ''a'' (Some 1) 5 None" "sample ''b'' (Some 2) 5 None"]
  by (simp add: sample_def)

text \<open>
  C2 as stated fails: of two assets with the same price, ranked 1 and 2 and held in this
  order, the view sorted by price shows rank 2 first, and the comparator puts either one
  before the other.
\<close>

theorem rank_tie_break_counterexample:
  "map market_cap_rank (sortedCoins Key_price desc
     [sample ''a'' (Some 1) 5 None, sample ''b'' (Some 2) 5 None]) = [Some 2, Some 1] \<and>
   compare_coins Key_price desc (sample ''a'' (Some 1) 5 None) (sample ''b'' (Some 2) 5 None) = - 1 \<and>
   compare_coins Key_price desc (sample ''b'' (Some 2) 5 None) (sample ''a'' (Some 1) 5 None) = - 1"
  by (simp add: sortedCoins_two compare_coins_def sample_def)

end
